theory Spec2Isabelle
  imports Complex_Main "HOL-Library.Log_Nat"
begin

section \<open>JavaScript numbers\<close>

text \<open>
  Every finite IEEE-754 double is a rational number, so a finite JavaScript number is
  modelled as a \<^typ>\<open>rat\<close>. The second constructor stands for \<open>NaN\<close> and for the
  \<open>undefined\<close> that an out-of-range array read returns: every arithmetic operation,
  \<open>Math.max\<close>, \<open>Math.min\<close> and \<open>Math.round\<close> turn \<open>undefined\<close> into \<open>NaN\<close>, and every
  comparison with either of them is false.

  Arithmetic in the ROM calculators and in the gait cycle extraction is exact rational
  arithmetic. The resampling function takes the rounding that the machine applies to
  each arithmetic result as a parameter, because whether a sample position is an
  integer depends on it.

  Angle series given to the ROM calculators and event times hold finite numbers only.
  The infinities are not modelled: the only divisions by zero of the modelled code are
  \<open>0 / 0\<close> in the ankle calculator and the step of \<open>resampleData\<close> for one target
  point, and both are written out where they occur.
\<close>

datatype jsnum = Fin rat | NaN

fun js1 :: "(rat \<Rightarrow> rat) \<Rightarrow> jsnum \<Rightarrow> jsnum" where
  "js1 f (Fin x) = Fin (f x)"
| "js1 f NaN = NaN"

fun js2 :: "(rat \<Rightarrow> rat \<Rightarrow> rat) \<Rightarrow> jsnum \<Rightarrow> jsnum \<Rightarrow> jsnum" where
  "js2 f (Fin x) (Fin y) = Fin (f x y)"
| "js2 f _ _ = NaN"

fun js_less :: "jsnum \<Rightarrow> jsnum \<Rightarrow> bool" where
  "js_less (Fin x) (Fin y) = (x < y)"
| "js_less _ _ = False"

definition rat_at :: "rat list \<Rightarrow> int \<Rightarrow> jsnum" where
  \<comment> \<open>\<open>xs[i]\<close> on an array of finite numbers\<close>
  "rat_at xs i = (if 0 \<le> i \<and> i < int (length xs) then Fin (xs ! nat i) else NaN)"

definition num_at :: "jsnum list \<Rightarrow> int \<Rightarrow> jsnum" where
  \<comment> \<open>\<open>xs[i]\<close> on an array of numbers\<close>
  "num_at xs i = (if 0 \<le> i \<and> i < int (length xs) then xs ! nat i else NaN)"

definition Math_round :: "rat \<Rightarrow> rat" where
  \<comment> \<open>nearest integer, a tie goes up\<close>
  "Math_round x = of_int \<lfloor>x + 1 / 2\<rfloor>"

definition round1 :: "rat \<Rightarrow> rat" where
  \<comment> \<open>\<open>Math.round(x * 10) / 10\<close>\<close>
  "round1 x = Math_round (x * 10) / 10"

fun Math_max :: "rat list \<Rightarrow> rat" where
  \<comment> \<open>\<open>Math.max(...xs)\<close>; every call site passes a non-empty array\<close>
  "Math_max [x] = x"
| "Math_max (x # xs) = max x (Math_max xs)"

fun Math_min :: "rat list \<Rightarrow> rat" where
  "Math_min [x] = x"
| "Math_min (x # xs) = min x (Math_min xs)"

definition slice :: "'a list \<Rightarrow> nat \<Rightarrow> nat \<Rightarrow> 'a list" where
  \<comment> \<open>\<open>xs.slice(a, b)\<close> for \<open>0 \<le> a\<close>\<close>
  "slice xs a b = take (b - a) (drop a xs)"

section \<open>ROMCalculator\<close>

datatype peak_type = flexion | extension

record PeakPoint =
  peak_index :: nat
  peak_value :: rat
  peak_type :: peak_type
  peak_confidence :: rat

datatype method_tag = peak_detection | percentile_fallback

record ROMResult =
  anatomicalZero :: rat
  maxFlexion :: jsnum
  maxExtension :: jsnum
  totalROM :: jsnum
  rom_method :: method_tag
  confidence :: rat

datatype quality = excellent | good | fair | poor

record ROMAnalysis =
  left :: ROMResult
  right :: ROMResult
  asymmetry :: jsnum
  averageROM :: jsnum
  dataQuality :: quality

definition calculateAnatomicalZero :: "rat list \<Rightarrow> nat \<Rightarrow> rat" where
  "calculateAnatomicalZero angles frameCount =
     (let initialFrames = slice angles 0 (min frameCount (length angles)) in
      if length initialFrames = 0 then 0
      else let sum = foldl (\<lambda>acc angle. acc + angle) 0 initialFrames
           in round1 (sum / of_nat (length initialFrames)))"

definition calculatePeakConfidence :: "rat list \<Rightarrow> nat \<Rightarrow> nat \<Rightarrow> rat" where
  "calculatePeakConfidence angles peakIndex windowSize =
     (let peak = angles ! peakIndex;
          before = slice angles (peakIndex - windowSize) peakIndex;
          after = slice angles (peakIndex + 1) (peakIndex + windowSize + 1);
          beforeDiff = \<bar>peak - Math_max before\<bar>;
          afterDiff = \<bar>peak - Math_max after\<bar>;
          avgDiff = (beforeDiff + afterDiff) / 2
      in min (avgDiff / 10) 1)"

definition findPeaks :: "rat list \<Rightarrow> rat \<Rightarrow> PeakPoint list" where
  "findPeaks angles zero =
     (let windowSize = 3 in
      concat (map (\<lambda>i.
        let current = angles ! i;
            isFlexionPeak = (current > zero \<and>
              list_all (\<lambda>val. val \<le> current) (slice angles (i - windowSize) i) \<and>
              list_all (\<lambda>val. val \<le> current) (slice angles (i + 1) (i + windowSize + 1)));
            isExtensionPeak = (current < zero \<and>
              list_all (\<lambda>val. val \<ge> current) (slice angles (i - windowSize) i) \<and>
              list_all (\<lambda>val. val \<ge> current) (slice angles (i + 1) (i + windowSize + 1)))
        in if isFlexionPeak then
             [\<lparr>peak_index = i, peak_value = current, peak_type = flexion,
               peak_confidence = calculatePeakConfidence angles i windowSize\<rparr>]
           else if isExtensionPeak then
             [\<lparr>peak_index = i, peak_value = current, peak_type = extension,
               peak_confidence = calculatePeakConfidence angles i windowSize\<rparr>]
           else [])
        [windowSize ..< length angles - windowSize]))"

definition calculatePercentileROM :: "rat list \<Rightarrow> rat \<Rightarrow> ROMResult" where
  \<comment> \<open>\<open>sort\<close> is the numeric ascending order of \<open>sort((a, b) => a - b)\<close>\<close>
  "calculatePercentileROM angles zero =
     (let sorted = sort angles;
          percentile95 = rat_at sorted \<lfloor>of_nat (length sorted) * (95 / 100 :: rat)\<rfloor>;
          percentile5 = rat_at sorted \<lfloor>of_nat (length sorted) * (5 / 100 :: rat)\<rfloor>
      in \<lparr>anatomicalZero = zero,
          maxFlexion = js1 round1 percentile95,
          maxExtension = js1 round1 percentile5,
          totalROM = js1 round1 (js2 (\<lambda>a b. a - b) percentile95 percentile5),
          rom_method = percentile_fallback,
          confidence = 7 / 10\<rparr>)"

definition calculatePeakROM :: "rat list \<Rightarrow> rat \<Rightarrow> ROMResult" where
  "calculatePeakROM angles zero =
     (let peaks = findPeaks angles zero;
          flexionPeaks = filter (\<lambda>p. peak_type p = flexion) peaks;
          extensionPeaks = filter (\<lambda>p. peak_type p = extension) peaks;
          avgConfidence = (if length peaks > 0
             then foldl (\<lambda>sum p. sum + peak_confidence p) 0 peaks / of_nat (length peaks)
             else 0)
      in if length flexionPeaks \<ge> 1 \<and> length extensionPeaks \<ge> 1 \<and> avgConfidence > 3 / 10
         then let maxFlex = Math_max (map peak_value flexionPeaks);
                  maxExt = Math_min (map peak_value extensionPeaks)
              in \<lparr>anatomicalZero = zero,
                  maxFlexion = Fin (round1 maxFlex),
                  maxExtension = Fin (round1 maxExt),
                  totalROM = Fin (round1 (maxFlex - maxExt)),
                  rom_method = peak_detection,
                  confidence = min avgConfidence (95 / 100)\<rparr>
         else calculatePercentileROM angles zero)"

definition calculateLegROM :: "rat list \<Rightarrow> ROMResult" where
  "calculateLegROM angles =
     (if length angles = 0 then
        \<lparr>anatomicalZero = 0, maxFlexion = Fin 0, maxExtension = Fin 0, totalROM = Fin 0,
         rom_method = percentile_fallback, confidence = 0\<rparr>
      else calculatePeakROM angles (calculateAnatomicalZero angles 15))"

definition calculateBilateralROM :: "rat list \<Rightarrow> rat list \<Rightarrow> ROMAnalysis" where
  "calculateBilateralROM leftAngles rightAngles =
     (let leftROM = calculateLegROM leftAngles;
          rightROM = calculateLegROM rightAngles;
          asym = js1 abs (js2 (\<lambda>a b. a - b) (totalROM leftROM) (totalROM rightROM));
          avgROM = js1 (\<lambda>s. s / 2) (js2 (\<lambda>a b. a + b) (totalROM leftROM) (totalROM rightROM));
          avgConfidence = (confidence leftROM + confidence rightROM) / 2;
          quality =
            (if avgConfidence > 8 / 10 \<and> js_less asym (Fin 5) then excellent
             else if avgConfidence > 6 / 10 \<and> js_less asym (Fin 10) then good
             else if avgConfidence > 4 / 10 \<and> js_less asym (Fin 15) then fair
             else poor)
      in \<lparr>left = leftROM, right = rightROM,
          asymmetry = js1 round1 asym,
          averageROM = js1 round1 avgROM,
          dataQuality = quality\<rparr>)"

definition scenario1 :: "rat list" where
  \<comment> \<open>101 points, 0 everywhere except 70 at index 75 and -5 at index 95\<close>
  "scenario1 = replicate 75 0 @ [70] @ replicate 19 0 @ [- 5] @ replicate 5 0"

definition flat101 :: "rat list" where
  "flat101 = replicate 101 0"

section \<open>AnkleROMCalculator\<close>

datatype ankle_peak_type = dorsiflexion | plantarflexion

record AnklePeak =
  ankle_value :: jsnum
  ankle_type :: ankle_peak_type

record AnkleROM =
  rom_maxDorsiflexion :: jsnum
  rom_maxPlantarflexion :: jsnum
  rom_totalROM :: jsnum

record AnkleLegROM =
  ankle_maxDorsiflexion :: jsnum
  ankle_maxPlantarflexion :: jsnum
  ankle_totalROM :: jsnum
  ankle_anatomicalZero :: jsnum

record AnkleROMAnalysis =
  ankle_left :: AnkleLegROM
  ankle_right :: AnkleLegROM
  ankle_asymmetry :: jsnum
  ankle_averageROM :: jsnum

fun js_max :: "jsnum list \<Rightarrow> jsnum" where
  \<comment> \<open>\<open>Math.max(...xs)\<close> on a non-empty array that may hold \<open>undefined\<close>\<close>
  "js_max [x] = js1 (\<lambda>a. a) x"
| "js_max (x # xs) = js2 max x (js_max xs)"

fun js_min :: "jsnum list \<Rightarrow> jsnum" where
  "js_min [x] = js1 (\<lambda>a. a) x"
| "js_min (x # xs) = js2 min x (js_min xs)"

definition ankle_calculateAnatomicalZero :: "rat list \<Rightarrow> jsnum" where
  "ankle_calculateAnatomicalZero angles =
     (let initialFrames = min 20 (nat \<lfloor>of_nat (length angles) * (1 / 10 :: rat)\<rfloor>);
          stanceFrames = slice angles 0 initialFrames;
          sum = foldl (\<lambda>sum angle. sum + angle) 0 stanceFrames
      in if length stanceFrames = 0
         then NaN \<comment> \<open>the sum of no frames is 0, and \<open>0 / 0\<close> is \<open>NaN\<close>\<close>
         else Fin (round1 (sum / of_nat (length stanceFrames))))"

definition findAnklePeaks :: "rat list \<Rightarrow> jsnum \<Rightarrow> AnklePeak list" where
  "findAnklePeaks angles zero =
     (let maxima = concat (map (\<lambda>i.
            if angles ! i > angles ! (i - 1) \<and> angles ! i > angles ! (i + 1)
               \<and> js_less zero (Fin (angles ! i))
            then [\<lparr>ankle_value = Fin (angles ! i), ankle_type = dorsiflexion\<rparr>] else [])
            [1 ..< length angles - 1]);
          minima = concat (map (\<lambda>i.
            if angles ! i < angles ! (i - 1) \<and> angles ! i < angles ! (i + 1)
               \<and> js_less (Fin (angles ! i)) zero
            then [\<lparr>ankle_value = Fin (angles ! i), ankle_type = plantarflexion\<rparr>] else [])
            [1 ..< length angles - 1]);
          peaks = maxima @ minima
      in if length peaks = 0 then
           let sortedAngles = sort angles;
               dorsiflexion95th =
                 rat_at sortedAngles \<lfloor>of_nat (length sortedAngles) * (95 / 100 :: rat)\<rfloor>;
               plantarflexion5th =
                 rat_at sortedAngles \<lfloor>of_nat (length sortedAngles) * (5 / 100 :: rat)\<rfloor>
           in peaks @ [\<lparr>ankle_value = dorsiflexion95th, ankle_type = dorsiflexion\<rparr>,
                       \<lparr>ankle_value = plantarflexion5th, ankle_type = plantarflexion\<rparr>]
         else peaks)"

definition calculateAnkleROM :: "AnklePeak list \<Rightarrow> jsnum \<Rightarrow> AnkleROM" where
  "calculateAnkleROM peaks zero =
     (let dorsiflexionPeaks = filter (\<lambda>p. ankle_type p = dorsiflexion) peaks;
          plantarflexionPeaks = filter (\<lambda>p. ankle_type p = plantarflexion) peaks;
          maxDorsiflexion = (if length dorsiflexionPeaks > 0
             then js_max (map ankle_value dorsiflexionPeaks) else zero);
          maxPlantarflexion = (if length plantarflexionPeaks > 0
             then js_min (map ankle_value plantarflexionPeaks) else zero);
          total = js2 (\<lambda>a b. a + b)
             (js1 abs (js2 (\<lambda>a b. a - b) maxDorsiflexion zero))
             (js1 abs (js2 (\<lambda>a b. a - b) maxPlantarflexion zero))
      in \<lparr>rom_maxDorsiflexion = js1 round1 maxDorsiflexion,
          rom_maxPlantarflexion = js1 round1 maxPlantarflexion,
          rom_totalROM = js1 round1 total\<rparr>)"

definition ankle_calculateBilateralROM :: "rat list \<Rightarrow> rat list \<Rightarrow> AnkleROMAnalysis" where
  "ankle_calculateBilateralROM leftAngles rightAngles =
     (let leftAnatomicalZero = ankle_calculateAnatomicalZero leftAngles;
          rightAnatomicalZero = ankle_calculateAnatomicalZero rightAngles;
          leftPeaks = findAnklePeaks leftAngles leftAnatomicalZero;
          rightPeaks = findAnklePeaks rightAngles rightAnatomicalZero;
          leftROM = calculateAnkleROM leftPeaks leftAnatomicalZero;
          rightROM = calculateAnkleROM rightPeaks rightAnatomicalZero;
          asym = js1 abs (js2 (\<lambda>a b. a - b) (rom_totalROM leftROM) (rom_totalROM rightROM));
          avgROM = js1 (\<lambda>s. s / 2)
             (js2 (\<lambda>a b. a + b) (rom_totalROM leftROM) (rom_totalROM rightROM))
      in \<lparr>ankle_left = \<lparr>ankle_maxDorsiflexion = rom_maxDorsiflexion leftROM,
                         ankle_maxPlantarflexion = rom_maxPlantarflexion leftROM,
                         ankle_totalROM = rom_totalROM leftROM,
                         ankle_anatomicalZero = leftAnatomicalZero\<rparr>,
          ankle_right = \<lparr>ankle_maxDorsiflexion = rom_maxDorsiflexion rightROM,
                          ankle_maxPlantarflexion = rom_maxPlantarflexion rightROM,
                          ankle_totalROM = rom_totalROM rightROM,
                          ankle_anatomicalZero = rightAnatomicalZero\<rparr>,
          ankle_asymmetry = js1 round1 asym,
          ankle_averageROM = js1 round1 avgROM\<rparr>)"

section \<open>GaitCycleDetector\<close>

datatype leg = Left | Right

datatype phase_tag = IC | LR | MSt | TSt | PSw | ISw | MSw | TSw

record GaitEvent =
  ev_frame :: nat
  ev_time :: rat
  ev_type :: phase_tag
  ev_leg :: leg

record GaitData =
  frame :: nat
  time :: rat
  leftHip :: jsnum
  rightHip :: jsnum
  leftKnee :: jsnum
  rightKnee :: jsnum
  leftAnkle :: jsnum
  rightAnkle :: jsnum
  leftFootContact :: bool
  rightFootContact :: bool

record GaitCycle =
  leg :: leg
  startFrame :: nat
  endFrame :: nat
  startTime :: rat
  endTime :: rat
  duration :: rat
  frames :: "nat list"
  hipAngles :: "jsnum list"
  kneeAngles :: "jsnum list"
  ankleAngles :: "jsnum list"

record NormalizedCycle =
  norm_leg :: leg
  normalizedHip :: "jsnum list"
  normalizedKnee :: "jsnum list"
  normalizedAnkle :: "jsnum list"

definition createGaitCycle ::
  "GaitData list \<Rightarrow> GaitEvent \<Rightarrow> GaitEvent \<Rightarrow> leg \<Rightarrow> GaitCycle option" where
  "createGaitCycle data startEvent endEvent l =
     (let startF = ev_frame startEvent;
          endF = ev_frame endEvent;
          dur = ev_time endEvent - ev_time startEvent
      in if dur < 8 / 10 \<or> dur > 15 / 10 then None
         else let fs = [startF ..< min (endF + 1) (length data)]
              in Some \<lparr>leg = l, startFrame = startF, endFrame = endF,
                       startTime = ev_time startEvent, endTime = ev_time endEvent,
                       duration = dur, frames = fs,
                       hipAngles = map (\<lambda>i. if l = Left then leftHip (data ! i)
                                             else rightHip (data ! i)) fs,
                       kneeAngles = map (\<lambda>i. if l = Left then leftKnee (data ! i)
                                              else rightKnee (data ! i)) fs,
                       ankleAngles = map (\<lambda>i. if l = Left then leftAnkle (data ! i)
                                               else rightAnkle (data ! i)) fs\<rparr>)"

definition extractGaitCycles :: "GaitData list \<Rightarrow> GaitEvent list \<Rightarrow> GaitCycle list" where
  "extractGaitCycles data icEvents =
     (let leftICs = filter (\<lambda>e. ev_leg e = Left) icEvents;
          rightICs = filter (\<lambda>e. ev_leg e = Right) icEvents
      in List.map_filter (\<lambda>i. createGaitCycle data (leftICs ! i) (leftICs ! (i + 1)) Left)
           [0 ..< length leftICs - 1]
       @ List.map_filter (\<lambda>i. createGaitCycle data (rightICs ! i) (rightICs ! (i + 1)) Right)
           [0 ..< length rightICs - 1])"

definition icEvent :: "nat \<Rightarrow> nat \<Rightarrow> leg \<Rightarrow> GaitEvent" where
  \<comment> \<open>an IC event at frame \<open>f\<close> of a recording at \<open>frameRate\<close> Hz; \<open>time = f / frameRate\<close>\<close>
  "icEvent frameRate f l =
     \<lparr>ev_frame = f, ev_time = of_nat f / of_nat frameRate, ev_type = IC, ev_leg = l\<rparr>"


definition sampleCycle :: GaitCycle where
  \<comment> \<open>a cycle with three hip samples, one knee sample and no ankle sample\<close>
  "sampleCycle =
     \<lparr>leg = Left, startFrame = 0, endFrame = 2, startTime = 0, endTime = 1, duration = 1,
      frames = [0, 1, 2], hipAngles = [Fin 1, Fin 2, Fin 4], kneeAngles = [Fin 3],
      ankleAngles = []\<rparr>"

definition ramp8 :: "jsnum list" where
  \<comment> \<open>eight samples 0, 1, ..., 7\<close>
  "ramp8 = [Fin 0, Fin 1, Fin 2, Fin 3, Fin 4, Fin 5, Fin 6, Fin 7]"

definition resamplePoint :: "(rat \<Rightarrow> rat) \<Rightarrow> jsnum list \<Rightarrow> rat \<Rightarrow> nat \<Rightarrow> jsnum" where
  \<comment> \<open>the body of the loop of \<open>resampleData\<close>: the value pushed at position \<open>i\<close>\<close>
  "resamplePoint rnd data step i =
     (let index = rnd (of_nat i * step);
          lowerIndex = \<lfloor>index\<rfloor>;
          upperIndex = \<lceil>index\<rceil>
      in if lowerIndex = upperIndex then num_at data lowerIndex
         else
           let weight = rnd (index - of_int lowerIndex);
               interpolated = js2 (\<lambda>a b. rnd (a + b))
                 (js1 (\<lambda>a. rnd (a * rnd (1 - weight))) (num_at data lowerIndex))
                 (js1 (\<lambda>a. rnd (a * weight)) (num_at data upperIndex))
           in js1 (\<lambda>v. rnd (Math_round (rnd (v * 10)) / 10)) interpolated)"

definition resampleData :: "(rat \<Rightarrow> rat) \<Rightarrow> jsnum list \<Rightarrow> nat \<Rightarrow> jsnum list" where
  \<comment> \<open>\<open>rnd\<close> is the rounding of each arithmetic result: the identity for exact
      arithmetic, \<open>fl64\<close> for IEEE-754 doubles\<close>
  "resampleData rnd data targetPoints =
     (if length data = 0 then []
      else if length data = 1 then replicate targetPoints (data ! 0)
      else if targetPoints = 1
      then [NaN] \<comment> \<open>\<open>step\<close> is \<open>Infinity\<close> and \<open>0 * Infinity\<close> is \<open>NaN\<close>\<close>
      else
        let step = rnd (of_nat (length data - 1) / of_nat (targetPoints - 1))
        in map (resamplePoint rnd data step) [0 ..< targetPoints])"

definition normalizeGaitCycles ::
  "(rat \<Rightarrow> rat) \<Rightarrow> GaitCycle list \<Rightarrow> nat \<Rightarrow> NormalizedCycle list" where
  "normalizeGaitCycles rnd cycles pointsCount =
     map (\<lambda>cycle. \<lparr>norm_leg = leg cycle,
                    normalizedHip = resampleData rnd (hipAngles cycle) pointsCount,
                    normalizedKnee = resampleData rnd (kneeAngles cycle) pointsCount,
                    normalizedAnkle = resampleData rnd (ankleAngles cycle) pointsCount\<rparr>)
         cycles"

subsection \<open>Rounding to the nearest double\<close>

text \<open>
  \<open>fl64 x\<close> is the IEEE-754 binary64 number nearest to \<open>x\<close>, a tie going to the even
  significand, for \<open>x\<close> in the range of the normal doubles (no overflow, no subnormals):
  \<open>x\<close> is scaled by a power of two into the interval from \<open>2^52\<close> to \<open>2^53\<close>, rounded to
  an integer and scaled back.
\<close>

definition pow2 :: "int \<Rightarrow> rat" where
  "pow2 e = (if 0 \<le> e then 2 ^ nat e else 1 / 2 ^ nat (- e))"

definition round_even :: "rat \<Rightarrow> int" where
  "round_even y =
     (let f = \<lfloor>y\<rfloor>; r = y - of_int f
      in if r < 1 / 2 then f else if 1 / 2 < r then f + 1
         else if even f then f else f + 1)"

definition fl64 :: "rat \<Rightarrow> rat" where
  "fl64 x =
     (if x = 0 then 0
      else let (p, q) = quotient_of \<bar>x\<bar>;
               e0 = bitlen p - bitlen q - 53;
               e = (if 2 ^ 53 \<le> \<bar>x\<bar> / pow2 e0 then e0 + 1 else e0)
           in of_int (round_even (x / pow2 e)) * pow2 e)"

section \<open>GaitPhaseDetector\<close>

record GaitPhase =
  name :: string
  phase_abbreviation :: string
  startPercent :: rat
  endPercent :: rat
  color :: string
  description :: string

definition STANDARD_PHASES :: "GaitPhase list" where
  "STANDARD_PHASES =
    [\<lparr>name = ''Initial Contact'', phase_abbreviation = ''IC'', startPercent = 0, endPercent = 2,
      color = ''#ef4444'', description = ''Heel strike - foot first contacts ground''\<rparr>,
     \<lparr>name = ''Loading Response'', phase_abbreviation = ''LR'', startPercent = 2, endPercent = 12,
      color = ''#f97316'', description = ''Weight acceptance and shock absorption''\<rparr>,
     \<lparr>name = ''Mid Stance'', phase_abbreviation = ''MSt'', startPercent = 12, endPercent = 31,
      color = ''#eab308'', description = ''Single limb support over the foot''\<rparr>,
     \<lparr>name = ''Terminal Stance'', phase_abbreviation = ''TSt'', startPercent = 31, endPercent = 50,
      color = ''#22c55e'', description = ''Heel off and weight shift forward''\<rparr>,
     \<lparr>name = ''Pre-Swing'', phase_abbreviation = ''PSw'', startPercent = 50, endPercent = 62,
      color = ''#06b6d4'', description = ''Toe off preparation and double support''\<rparr>,
     \<lparr>name = ''Initial Swing'', phase_abbreviation = ''ISw'', startPercent = 62, endPercent = 75,
      color = ''#3b82f6'', description = ''Foot clearance and acceleration''\<rparr>,
     \<lparr>name = ''Mid Swing'', phase_abbreviation = ''MSw'', startPercent = 75, endPercent = 87,
      color = ''#8b5cf6'', description = ''Limb advancement to vertical''\<rparr>,
     \<lparr>name = ''Terminal Swing'', phase_abbreviation = ''TSw'', startPercent = 87, endPercent = 100,
      color = ''#ec4899'', description = ''Deceleration and preparation for contact''\<rparr>]"

definition getPhaseAtPercent :: "rat \<Rightarrow> GaitPhase option" where
  "getPhaseAtPercent percent =
     find (\<lambda>phase. percent \<ge> startPercent phase \<and> percent \<le> endPercent phase)
       STANDARD_PHASES"

section \<open>Properties of the ROM calculator\<close>

subsection \<open>Auxiliary facts\<close>




lemma findPeaks_windows:
  assumes "3 \<le> i" "i < length angles - 3"
  shows "length (slice angles (i - 3) i) = 3" "length (slice angles (i + 1) (i + 3 + 1)) = 3"
  using assms by (simp_all add: slice_def)

lemma floor_percent95: "\<lfloor>of_nat n * (95 / 100 :: rat)\<rfloor> = int (19 * n div 20)"
proof -
  have "of_nat n * (95 / 100 :: rat) = of_nat (19 * n) / of_nat 20" by simp
  then show ?thesis by (simp only: floor_divide_of_nat_eq)
qed

lemma floor_percent5: "\<lfloor>of_nat n * (5 / 100 :: rat)\<rfloor> = int (n div 20)"
proof -
  have "of_nat n * (5 / 100 :: rat) = of_nat n / of_nat 20" by simp
  then show ?thesis by (simp only: floor_divide_of_nat_eq)
qed

lemma calculatePercentileROM_nonempty:
  assumes "angles \<noteq> []"
  shows "calculatePercentileROM angles zero =
    \<lparr>anatomicalZero = zero,
     maxFlexion = Fin (round1 (sort angles ! (19 * length angles div 20))),
     maxExtension = Fin (round1 (sort angles ! (length angles div 20))),
     totalROM = Fin (round1 (sort angles ! (19 * length angles div 20)
                             - sort angles ! (length angles div 20))),
     rom_method = percentile_fallback, confidence = 7 / 10\<rparr>"
proof -
  from assms have n: "0 < length angles" by simp
  then have "19 * length angles div 20 < length angles" "length angles div 20 < length angles"
    by (simp_all add: div_less_iff_less_mult)
  then show ?thesis
    unfolding calculatePercentileROM_def Let_def length_sort floor_percent95 floor_percent5
    by (simp add: rat_at_def)
qed

subsection \<open>Peak detection and its fallback\<close>






subsection \<open>ROM of the two reference series\<close>

text \<open>
  C2. The 101-point series that is 0 everywhere except 70 at index 75 and -5 at
  index 95 has anatomical zero 0 over its first 15 samples, and the single-leg ROM
  calculation returns maxFlexion 70, maxExtension -5, totalROM 75 by peak detection.
\<close>

theorem scenario1_peak_detection:
  "length scenario1 = 101 \<and> scenario1 ! 75 = 70 \<and> scenario1 ! 95 = - 5
   \<and> calculateAnatomicalZero scenario1 15 = 0
   \<and> maxFlexion (calculateLegROM scenario1) = Fin 70
   \<and> maxExtension (calculateLegROM scenario1) = Fin (- 5)
   \<and> totalROM (calculateLegROM scenario1) = Fin 75
   \<and> rom_method (calculateLegROM scenario1) = peak_detection"
  by code_simp

text \<open>
  C3, as the claim states it, fails: for two all-zero 101-point series the data quality
  is not the lowest bucket, and the confidence of a leg is not 0.
\<close>

theorem flat_series_quality_counterexample:
  "dataQuality (calculateBilateralROM flat101 flat101) \<noteq> poor
   \<and> confidence (left (calculateBilateralROM flat101 flat101)) \<noteq> 0"
  by code_simp

text \<open>
  C3, amended. For two all-zero 101-point series, asymmetry and averageROM are 0; both
  legs come from the percentile fallback, whose confidence is the constant 0.7, and the
  data quality is the second bucket, good.
\<close>

theorem flat_series_quality:
  "asymmetry (calculateBilateralROM flat101 flat101) = Fin 0
   \<and> averageROM (calculateBilateralROM flat101 flat101) = Fin 0
   \<and> rom_method (left (calculateBilateralROM flat101 flat101)) = percentile_fallback
   \<and> rom_method (right (calculateBilateralROM flat101 flat101)) = percentile_fallback
   \<and> confidence (left (calculateBilateralROM flat101 flat101)) = 7 / 10
   \<and> confidence (right (calculateBilateralROM flat101 flat101)) = 7 / 10
   \<and> dataQuality (calculateBilateralROM flat101 flat101) = good"
  by code_simp

subsection \<open>Sign and definedness of the total ROM\<close>

lemma Math_max_in_set: "xs \<noteq> [] \<Longrightarrow> Math_max xs \<in> set xs"
  by (induction xs rule: Math_max.induct) (auto simp: max_def)

lemma Math_min_in_set: "xs \<noteq> [] \<Longrightarrow> Math_min xs \<in> set xs"
  by (induction xs rule: Math_min.induct) (auto simp: min_def)

lemma round1_nonneg: "0 \<le> x \<Longrightarrow> 0 \<le> round1 x"
  by (simp add: round1_def Math_round_def)

lemma findPeaks_side:
  assumes "p \<in> set (findPeaks angles zero)"
  shows "(peak_type p = flexion \<longrightarrow> zero < peak_value p)
       \<and> (peak_type p = extension \<longrightarrow> peak_value p < zero)"
  using assms by (auto simp: findPeaks_def Let_def split: if_splits)

lemma calculatePercentileROM_totalROM_nonneg:
  assumes "angles \<noteq> []"
  shows "\<exists>f e t. maxFlexion (calculatePercentileROM angles zero) = Fin f
     \<and> maxExtension (calculatePercentileROM angles zero) = Fin e
     \<and> totalROM (calculatePercentileROM angles zero) = Fin t \<and> 0 \<le> t"
proof -
  let ?n = "length angles"
  from assms have n: "0 < ?n" by simp
  then have hi: "19 * ?n div 20 < length (sort angles)" by (simp add: div_less_iff_less_mult)
  have "?n div 20 \<le> 19 * ?n div 20" by (rule div_le_mono) simp
  with hi have "sort angles ! (?n div 20) \<le> sort angles ! (19 * ?n div 20)"
    by (intro sorted_nth_mono) simp_all
  then have "0 \<le> round1 (sort angles ! (19 * ?n div 20) - sort angles ! (?n div 20))"
    by (intro round1_nonneg) simp
  with assms show ?thesis by (simp add: calculatePercentileROM_nonempty)
qed

lemma calculatePeakROM_branches:
  "calculatePeakROM angles zero = calculatePercentileROM angles zero
   \<or> (map peak_value (filter (\<lambda>p. peak_type p = flexion) (findPeaks angles zero)) \<noteq> []
      \<and> map peak_value (filter (\<lambda>p. peak_type p = extension) (findPeaks angles zero)) \<noteq> []
      \<and> maxFlexion (calculatePeakROM angles zero) = Fin (round1 (Math_max
            (map peak_value (filter (\<lambda>p. peak_type p = flexion) (findPeaks angles zero)))))
      \<and> maxExtension (calculatePeakROM angles zero) = Fin (round1 (Math_min
            (map peak_value (filter (\<lambda>p. peak_type p = extension) (findPeaks angles zero)))))
      \<and> totalROM (calculatePeakROM angles zero) = Fin (round1
           (Math_max (map peak_value
              (filter (\<lambda>p. peak_type p = flexion) (findPeaks angles zero)))
            - Math_min (map peak_value
              (filter (\<lambda>p. peak_type p = extension) (findPeaks angles zero))))))"
proof (cases "length (filter (\<lambda>p. peak_type p = flexion) (findPeaks angles zero)) \<ge> 1
    \<and> length (filter (\<lambda>p. peak_type p = extension) (findPeaks angles zero)) \<ge> 1
    \<and> (if length (findPeaks angles zero) > 0
         then foldl (\<lambda>sum p. sum + peak_confidence p) 0 (findPeaks angles zero)
              / of_nat (length (findPeaks angles zero))
         else 0) > 3 / 10")
  case True
  then have "filter (\<lambda>p. peak_type p = flexion) (findPeaks angles zero) \<noteq> []"
    "filter (\<lambda>p. peak_type p = extension) (findPeaks angles zero) \<noteq> []"
    by auto
  moreover from True have "calculatePeakROM angles zero =
     \<lparr>anatomicalZero = zero,
      maxFlexion = Fin (round1 (Math_max
         (map peak_value (filter (\<lambda>p. peak_type p = flexion) (findPeaks angles zero))))),
      maxExtension = Fin (round1 (Math_min
         (map peak_value (filter (\<lambda>p. peak_type p = extension) (findPeaks angles zero))))),
      totalROM = Fin (round1
         (Math_max (map peak_value
            (filter (\<lambda>p. peak_type p = flexion) (findPeaks angles zero)))
          - Math_min (map peak_value
            (filter (\<lambda>p. peak_type p = extension) (findPeaks angles zero))))),
      rom_method = peak_detection,
      confidence = min (if length (findPeaks angles zero) > 0
         then foldl (\<lambda>sum p. sum + peak_confidence p) 0 (findPeaks angles zero)
              / of_nat (length (findPeaks angles zero))
         else 0) (95 / 100)\<rparr>"
    unfolding calculatePeakROM_def Let_def by (simp only: simp_thms if_True)
  ultimately show ?thesis by simp
next
  case False
  then have "calculatePeakROM angles zero = calculatePercentileROM angles zero"
    unfolding calculatePeakROM_def Let_def by (simp only: if_False)
  then show ?thesis by simp
qed

lemma calculatePeakROM_totalROM_nonneg:
  assumes "angles \<noteq> []"
  shows "\<exists>f e t. maxFlexion (calculatePeakROM angles zero) = Fin f
     \<and> maxExtension (calculatePeakROM angles zero) = Fin e
     \<and> totalROM (calculatePeakROM angles zero) = Fin t \<and> 0 \<le> t"
proof -
  define fl where "fl = map peak_value (filter (\<lambda>p. peak_type p = flexion) (findPeaks angles zero))"
  define ex where "ex = map peak_value (filter (\<lambda>p. peak_type p = extension) (findPeaks angles zero))"
  from calculatePeakROM_branches [of angles zero]
  consider "calculatePeakROM angles zero = calculatePercentileROM angles zero"
    | "fl \<noteq> []" "ex \<noteq> []"
      "maxFlexion (calculatePeakROM angles zero) = Fin (round1 (Math_max fl))"
      "maxExtension (calculatePeakROM angles zero) = Fin (round1 (Math_min ex))"
      "totalROM (calculatePeakROM angles zero) = Fin (round1 (Math_max fl - Math_min ex))"
    unfolding fl_def ex_def by blast
  then show ?thesis
  proof cases
    case 1
    with assms calculatePercentileROM_totalROM_nonneg [of angles zero] show ?thesis by simp
  next
    case 2
    then have "Math_max fl \<in> set fl" "Math_min ex \<in> set ex"
      by (simp_all add: Math_max_in_set Math_min_in_set)
    then have "zero < Math_max fl" "Math_min ex < zero"
      using findPeaks_side [of _ angles zero] by (auto simp: fl_def ex_def)
    then have "0 \<le> round1 (Math_max fl - Math_min ex)" by (intro round1_nonneg) simp
    with 2 show ?thesis by simp
  qed
qed

lemma calculateLegROM_totalROM_nonneg:
  "\<exists>f e t. maxFlexion (calculateLegROM angles) = Fin f
     \<and> maxExtension (calculateLegROM angles) = Fin e
     \<and> totalROM (calculateLegROM angles) = Fin t \<and> 0 \<le> t"
proof (cases "angles = []")
  case True
  then show ?thesis by (simp add: calculateLegROM_def)
next
  case False
  then have "calculateLegROM angles = calculatePeakROM angles (calculateAnatomicalZero angles 15)"
    by (simp add: calculateLegROM_def)
  with calculatePeakROM_totalROM_nonneg [OF False, of "calculateAnatomicalZero angles 15"]
  show ?thesis by simp
qed

lemma calculateLegROM_empty:
  "calculateLegROM [] = \<lparr>anatomicalZero = 0, maxFlexion = Fin 0, maxExtension = Fin 0,
     totalROM = Fin 0, rom_method = percentile_fallback, confidence = 0\<rparr>"
  by (simp add: calculateLegROM_def)

lemma js2_NaN_right: "js2 f x NaN = NaN"
  by (cases x) simp_all

lemma ankle_zero_short:
  assumes "length angles < 10"
  shows "ankle_calculateAnatomicalZero angles = NaN"
proof -
  from assms have "rat_of_nat (length angles) * (1 / 10) < 1" by simp
  moreover have "0 \<le> rat_of_nat (length angles) * (1 / 10)" by simp
  ultimately have "\<lfloor>rat_of_nat (length angles) * (1 / 10)\<rfloor> = 0" by (simp add: floor_eq_iff)
  then show ?thesis
    unfolding ankle_calculateAnatomicalZero_def Let_def by (simp add: slice_def)
qed

lemma calculateAnkleROM_NaN: "rom_totalROM (calculateAnkleROM peaks NaN) = NaN"
  by (simp add: calculateAnkleROM_def Let_def js2_NaN_right)

lemma ankle_totalROM_short:
  assumes "length leftAngles < 10"
  shows "ankle_totalROM (ankle_left (ankle_calculateBilateralROM leftAngles rightAngles)) = NaN"
    and "ankle_asymmetry (ankle_calculateBilateralROM leftAngles rightAngles) = NaN"
    and "ankle_averageROM (ankle_calculateBilateralROM leftAngles rightAngles) = NaN"
  using assms
  by (simp_all add: ankle_calculateBilateralROM_def Let_def ankle_zero_short calculateAnkleROM_NaN)


lemma ankle_zero_long:
  assumes "10 \<le> length angles"
  shows "\<exists>z. ankle_calculateAnatomicalZero angles = Fin z"
proof -
  define k where "k = \<lfloor>rat_of_nat (length angles) * (1 / 10)\<rfloor>"
  from assms have "rat_of_int 1 \<le> rat_of_nat (length angles) * (1 / 10)" by simp
  then have "1 \<le> k" unfolding k_def by (simp only: le_floor_iff)
  then have "1 \<le> min 20 (nat k)" by simp
  moreover from assms have "1 \<le> length angles" by simp
  ultimately have "length (slice angles 0 (min 20 (nat k))) \<noteq> 0"
    by (auto simp: slice_def)
  then show ?thesis
    unfolding ankle_calculateAnatomicalZero_def Let_def k_def by (simp only: if_False) blast
qed

lemma js_max_fin:
  "xs \<noteq> [] \<Longrightarrow> \<forall>x \<in> set xs. \<exists>v. x = Fin v \<Longrightarrow> \<exists>m. js_max xs = Fin m"
  by (induction xs rule: js_max.induct) auto

lemma js_min_fin:
  "xs \<noteq> [] \<Longrightarrow> \<forall>x \<in> set xs. \<exists>v. x = Fin v \<Longrightarrow> \<exists>m. js_min xs = Fin m"
  by (induction xs rule: js_min.induct) auto

lemma findAnklePeaks_fin:
  assumes "angles \<noteq> []" "p \<in> set (findAnklePeaks angles zero)"
  shows "\<exists>v. ankle_value p = Fin v"
proof -
  define maxima where "maxima = concat (map (\<lambda>i.
            if angles ! i > angles ! (i - 1) \<and> angles ! i > angles ! (i + 1)
               \<and> js_less zero (Fin (angles ! i))
            then [\<lparr>ankle_value = Fin (angles ! i), ankle_type = dorsiflexion\<rparr>] else [])
            [1 ..< length angles - 1])"
  define minima where "minima = concat (map (\<lambda>i.
            if angles ! i < angles ! (i - 1) \<and> angles ! i < angles ! (i + 1)
               \<and> js_less (Fin (angles ! i)) zero
            then [\<lparr>ankle_value = Fin (angles ! i), ankle_type = plantarflexion\<rparr>] else [])
            [1 ..< length angles - 1])"
  have mx: "\<exists>v. ankle_value q = Fin v" if "q \<in> set maxima" for q
    using that unfolding maxima_def by (auto split: if_splits)
  have mn: "\<exists>v. ankle_value q = Fin v" if "q \<in> set minima" for q
    using that unfolding minima_def by (auto split: if_splits)
  from assms(1) have "0 < length angles" by simp
  then have "19 * length angles div 20 < length angles" "length angles div 20 < length angles"
    by (simp_all add: div_less_iff_less_mult)
  then obtain a b where ab: "rat_at (sort angles) (int (19 * length angles div 20)) = Fin a"
    "rat_at (sort angles) (int (length angles div 20)) = Fin b"
    by (simp add: rat_at_def)
  have "findAnklePeaks angles zero =
     (if length (maxima @ minima) = 0
      then (maxima @ minima) @ [\<lparr>ankle_value = Fin a, ankle_type = dorsiflexion\<rparr>,
                                \<lparr>ankle_value = Fin b, ankle_type = plantarflexion\<rparr>]
      else maxima @ minima)"
    unfolding findAnklePeaks_def Let_def length_sort floor_percent95 floor_percent5 ab
      maxima_def minima_def ..
  with assms(2) have "p \<in> set maxima \<or> p \<in> set minima
      \<or> p = \<lparr>ankle_value = Fin a, ankle_type = dorsiflexion\<rparr>
      \<or> p = \<lparr>ankle_value = Fin b, ankle_type = plantarflexion\<rparr>"
    by (auto split: if_splits)
  with mx mn show ?thesis by auto
qed

lemma calculateAnkleROM_fin:
  assumes "\<forall>p \<in> set peaks. \<exists>v. ankle_value p = Fin v"
  shows "\<exists>d p t. rom_maxDorsiflexion (calculateAnkleROM peaks (Fin z)) = Fin d
     \<and> rom_maxPlantarflexion (calculateAnkleROM peaks (Fin z)) = Fin p
     \<and> rom_totalROM (calculateAnkleROM peaks (Fin z)) = Fin t \<and> 0 \<le> t"
proof -
  let ?dl = "filter (\<lambda>p. ankle_type p = dorsiflexion) peaks"
  let ?pl = "filter (\<lambda>p. ankle_type p = plantarflexion) peaks"
  from assms have fin: "\<forall>x \<in> set (map ankle_value ?dl). \<exists>v. x = Fin v"
    "\<forall>x \<in> set (map ankle_value ?pl). \<exists>v. x = Fin v"
    by auto
  obtain d where d: "(if length ?dl > 0 then js_max (map ankle_value ?dl) else Fin z) = Fin d"
    using js_max_fin [OF _ fin(1)] by (cases "?dl = []") auto
  obtain p where p: "(if length ?pl > 0 then js_min (map ankle_value ?pl) else Fin z) = Fin p"
    using js_min_fin [OF _ fin(2)] by (cases "?pl = []") auto
  have nn: "0 \<le> round1 (\<bar>d - z\<bar> + \<bar>p - z\<bar>)" by (intro round1_nonneg) simp
  have "calculateAnkleROM peaks (Fin z) =
      \<lparr>rom_maxDorsiflexion = Fin (round1 d), rom_maxPlantarflexion = Fin (round1 p),
       rom_totalROM = Fin (round1 (\<bar>d - z\<bar> + \<bar>p - z\<bar>))\<rparr>"
    unfolding calculateAnkleROM_def Let_def d p by simp
  with nn show ?thesis by simp
qed

lemma ankle_totalROM_long:
  assumes "10 \<le> length leftAngles"
  shows "\<exists>t. ankle_totalROM (ankle_left (ankle_calculateBilateralROM leftAngles rightAngles))
     = Fin t \<and> 0 \<le> t"
proof -
  from assms obtain z where z: "ankle_calculateAnatomicalZero leftAngles = Fin z"
    using ankle_zero_long by blast
  from assms have "leftAngles \<noteq> []" by auto
  then have "\<forall>p \<in> set (findAnklePeaks leftAngles (Fin z)). \<exists>v. ankle_value p = Fin v"
    using findAnklePeaks_fin by blast
  from calculateAnkleROM_fin [OF this, of z]
  obtain t where "rom_totalROM (calculateAnkleROM (findAnklePeaks leftAngles (Fin z)) (Fin z))
      = Fin t" "0 \<le> t"
    by blast
  then show ?thesis
    unfolding ankle_calculateBilateralROM_def Let_def z by simp
qed


text \<open>
  C4 fails on the code for the ankle calculator. For an empty and for a one-sample
  series the anatomical zero of the ankle calculator is \<open>0 / 0\<close>, and the reported
  totalROM is \<open>NaN\<close>, which is not greater than or equal to 0. The generic calculator
  returns totalROM 0 on the same inputs.
\<close>

theorem ankle_totalROM_not_a_number:
  "ankle_totalROM (ankle_left (ankle_calculateBilateralROM [] [])) = NaN
   \<and> ankle_totalROM (ankle_left (ankle_calculateBilateralROM [5] [5])) = NaN
   \<and> \<not> js_less (Fin (- 1)) (ankle_totalROM (ankle_left (ankle_calculateBilateralROM [5] [5])))
   \<and> totalROM (calculateLegROM []) = Fin 0
   \<and> totalROM (calculateLegROM [5]) = Fin 0"
  by code_simp

text \<open>
  C6 fails on the code for the ankle calculator. On empty arrays every number that
  \<open>AnkleROMCalculator.calculateBilateralROM\<close> returns is \<open>NaN\<close>, and the anatomical zero
  of a nine-sample array is \<open>NaN\<close> as well. The generic calculator returns the all-zero
  result with confidence 0 and method \<open>percentile_fallback\<close> on the empty array.
\<close>

theorem ankle_empty_array_not_a_number:
  "ankle_calculateBilateralROM [] [] =
     \<lparr>ankle_left = \<lparr>ankle_maxDorsiflexion = NaN, ankle_maxPlantarflexion = NaN,
                      ankle_totalROM = NaN, ankle_anatomicalZero = NaN\<rparr>,
      ankle_right = \<lparr>ankle_maxDorsiflexion = NaN, ankle_maxPlantarflexion = NaN,
                       ankle_totalROM = NaN, ankle_anatomicalZero = NaN\<rparr>,
      ankle_asymmetry = NaN, ankle_averageROM = NaN\<rparr>
   \<and> ankle_calculateAnatomicalZero [1, 2, 3, 4, 5, 6, 7, 8, 9] = NaN
   \<and> ankle_anatomicalZero (ankle_left (ankle_calculateBilateralROM
         [1, 2, 3, 4, 5, 6, 7, 8, 9] [1, 2, 3, 4, 5, 6, 7, 8, 9])) = NaN
   \<and> calculateLegROM [] =
     \<lparr>anatomicalZero = 0, maxFlexion = Fin 0, maxExtension = Fin 0, totalROM = Fin 0,
      rom_method = percentile_fallback, confidence = 0\<rparr>"
  by code_simp

section \<open>Properties of the gait cycle detector\<close>

subsection \<open>Cycle extraction\<close>







subsection \<open>Resampling\<close>

lemma length_resampleData:
  "length (resampleData rnd data tp) = (if data = [] then 0 else tp)"
  by (auto simp: resampleData_def Let_def)

lemma resampleData_single: "resampleData rnd [v] tp = replicate tp v"
  by (simp add: resampleData_def)

lemma resampleData_nth:
  "2 \<le> length data \<Longrightarrow> 2 \<le> tp \<Longrightarrow> i < tp \<Longrightarrow>
   resampleData rnd data tp ! i =
     resamplePoint rnd data (rnd (of_nat (length data - 1) / of_nat (tp - 1))) i"
  by (auto simp add: resampleData_def Let_def)

lemma resamplePoint_integral:
  assumes "rnd (of_nat i * step) = of_nat k" "k < length data"
  shows "resamplePoint rnd data step i = data ! k"
  using assms by (simp add: resamplePoint_def Let_def num_at_def)

lemma resampleData_same_length:
  assumes "2 \<le> length d" and exact: "\<forall>i < length d. rnd (of_nat i) = of_nat i"
  shows "resampleData rnd d (length d) = d"
proof -
  from assms have "rnd (of_nat 1) = of_nat 1" by (metis Suc_1 Suc_le_lessD less_Suc_eq_le less_le_trans one_le_numeral)
  then have one: "rnd 1 = 1" by simp
  have "resampleData rnd d (length d) ! i = d ! i" if "i < length d" for i
  proof -
    from that exact have "rnd (of_nat i * 1) = of_nat i" by simp
    then have "resamplePoint rnd d 1 i = d ! i"
      using that by (rule resamplePoint_integral)
    with assms(1) that show ?thesis by (simp add: resampleData_nth one)
  qed
  moreover from assms(1) have "length (resampleData rnd d (length d)) = length d"
    by (auto simp: length_resampleData)
  ultimately show ?thesis by (simp add: list_eq_iff_nth_eq)
qed

lemma resampleData_idem:
  assumes "2 \<le> tp" and "\<forall>i < tp. rnd (of_nat i) = of_nat i"
  shows "resampleData rnd (resampleData rnd d tp) tp = resampleData rnd d tp"
proof (cases "d = []")
  case True
  then show ?thesis by (simp add: resampleData_def)
next
  case False
  then have "length (resampleData rnd d tp) = tp" by (simp add: length_resampleData)
  with assms resampleData_same_length [of "resampleData rnd d tp" rnd] show ?thesis by simp
qed


text \<open>
  C7, as the claim states it, fails. Two IC events 1.1 s apart on an empty recording
  give an accepted cycle without samples, and its normalized arrays are empty, not of
  length 101.
\<close>

theorem normalize_empty_cycle_counterexample:
  "map (\<lambda>n. (length (normalizedHip n), length (normalizedKnee n), length (normalizedAnkle n)))
     (normalizeGaitCycles fl64
        (extractGaitCycles [] [icEvent 100 0 Left, icEvent 100 110 Left]) 101)
   = [(0, 0, 0)]"
  by code_simp

text \<open>
  C7, amended. For every pointsCount of at least 2 and every cycle, each normalized
  angle array has exactly pointsCount entries when the cycle's angle sub-series is not
  empty, and is empty when the sub-series is empty; a sub-series of exactly one sample
  yields pointsCount copies of that sample. This holds for every rounding of the
  arithmetic.
\<close>

theorem normalizeGaitCycles_length:
  "2 \<le> pointsCount \<and> k < length cycles \<longrightarrow>
     (let c = cycles ! k; n = normalizeGaitCycles rnd cycles pointsCount ! k
      in norm_leg n = leg c
         \<and> length (normalizedHip n) = (if hipAngles c = [] then 0 else pointsCount)
         \<and> length (normalizedKnee n) = (if kneeAngles c = [] then 0 else pointsCount)
         \<and> length (normalizedAnkle n) = (if ankleAngles c = [] then 0 else pointsCount)
         \<and> (\<forall>v. hipAngles c = [v] \<longrightarrow> normalizedHip n = replicate pointsCount v)
         \<and> (\<forall>v. kneeAngles c = [v] \<longrightarrow> normalizedKnee n = replicate pointsCount v)
         \<and> (\<forall>v. ankleAngles c = [v] \<longrightarrow> normalizedAnkle n = replicate pointsCount v))"
  by (simp add: normalizeGaitCycles_def Let_def length_resampleData resampleData_single)

theorem normalizeGaitCycles_length_witness:
  "(2::nat) \<le> 5 \<and> 0 < length [sampleCycle]
   \<and> length (normalizedHip (normalizeGaitCycles fl64 [sampleCycle] 5 ! 0)) = 5
   \<and> normalizedKnee (normalizeGaitCycles fl64 [sampleCycle] 5 ! 0) = replicate 5 (Fin 3)
   \<and> length (normalizedAnkle (normalizeGaitCycles fl64 [sampleCycle] 5 ! 0)) = 0"
  using normalizeGaitCycles_length [of 5 0 "[sampleCycle]" fl64]
  by (simp add: sampleCycle_def Let_def)

subsection \<open>Rounding to a double is exact on small naturals\<close>

lemma pow2_neg_nat: "pow2 (- int m) = 1 / 2 ^ m"
  by (cases m) (simp_all add: pow2_def nat_add_distrib)

lemma round_even_of_int: "round_even (of_int k) = k"
  by (simp add: round_even_def)

lemma bitlen_nat_bounds:
  assumes "0 < n"
  obtains k where "bitlen (int n) = int k" "1 \<le> k" "2 ^ (k - 1) \<le> n" "n < 2 ^ k"
proof -
  from assms have pos: "0 < int n" by simp
  define k where "k = nat (bitlen (int n))"
  have nonneg: "0 \<le> bitlen (int n)" by (rule bitlen_nonneg)
  then have bk: "bitlen (int n) = int k" by (simp add: k_def)
  from pos have "bitlen (int n) \<noteq> 0" by (simp add: bitlen_eq_zero_iff)
  with nonneg bk have k1: "1 \<le> k" by linarith
  then have "nat (bitlen (int n) - 1) = k - 1" by (simp add: bk)
  with bitlen_bounds [OF pos] have "(2::int) ^ (k - 1) \<le> int n" "int n < 2 ^ k"
    by (simp_all add: k_def)
  then have "int (2 ^ (k - 1)) \<le> int n" "int n < int (2 ^ k)" by simp_all
  then have "2 ^ (k - 1) \<le> n" "n < 2 ^ k" by (simp_all only: of_nat_le_iff of_nat_less_iff)
  with bk k1 show thesis by (rule that)
qed

lemma fl64_of_nat:
  assumes "n < 2 ^ 53"
  shows "fl64 (of_nat n) = of_nat n"
proof (cases "n = 0")
  case True
  then show ?thesis by (simp add: fl64_def)
next
  case False
  then have "0 < n" by simp
  then obtain k where bk: "bitlen (int n) = int k" and k1: "1 \<le> k"
    and lo: "2 ^ (k - 1) \<le> n" and hi: "n < 2 ^ k"
    by (rule bitlen_nat_bounds)
  from lo assms have "(2::nat) ^ (k - 1) < 2 ^ 53" by (rule le_less_trans)
  then have "k - 1 < 53" by (simp only: power_strict_increasing_iff rel_simps)
  with k1 have k53: "k \<le> 53" by linarith
  define m where "m = 53 - k"
  have q: "quotient_of \<bar>rat_of_nat n\<bar> = (int n, 1)"
    using quotient_of_int [of "int n"] by (simp add: Rat.of_int_def)
  have bl1: "bitlen 1 = 1" by (simp add: bitlen_alt_def)
  have e0: "int k - 1 - 53 = - int (Suc m)" using k1 k53 by (simp add: m_def)
  have "(k - 1) + Suc m = 53" using k1 k53 by (simp add: m_def)
  then have "(2::nat) ^ 53 = 2 ^ (k - 1) * 2 ^ Suc m" by (simp only: flip: power_add)
  also have "\<dots> \<le> n * 2 ^ Suc m" using lo by (rule mult_le_mono1)
  finally have "rat_of_nat (2 ^ 53) \<le> rat_of_nat (n * 2 ^ Suc m)" by (simp only: of_nat_le_iff)
  then have big: "(2::rat) ^ 53 \<le> rat_of_nat n / (1 / 2 ^ Suc m)" by simp
  have "rat_of_nat n / (1 / 2 ^ m) = rat_of_int (int n * 2 ^ m)" by simp
  then have r: "round_even (rat_of_nat n / (1 / 2 ^ m)) = int n * 2 ^ m"
    by (simp only: round_even_of_int)
  have c: "(2::rat) ^ 53 \<le> \<bar>rat_of_nat n\<bar> / pow2 (- int (Suc m))"
    using big by (simp only: pow2_neg_nat abs_of_nat)
  have nz: "rat_of_nat n \<noteq> 0" using False by simp
  have e1': "- int (Suc m) + 1 = - int m" by simp
  have "fl64 (rat_of_nat n)
      = rat_of_int (round_even (rat_of_nat n / pow2 (- int m))) * pow2 (- int m)"
    unfolding fl64_def q Let_def prod.case bk bl1 e0
    by (simp only: nz c if_False if_True e1')
  also have "\<dots> = rat_of_int (int n * 2 ^ m) * (1 / 2 ^ m)"
    by (simp only: pow2_neg_nat r)
  also have "\<dots> = rat_of_nat n" by simp
  finally show ?thesis .
qed


subsection \<open>Resampling at the same length\<close>

lemma resampleData_idem_exact:
  "2 \<le> tp \<Longrightarrow> resampleData id (resampleData id d tp) tp = resampleData id d tp"
  by (rule resampleData_idem) simp_all

lemma resampleData_idem_double:
  assumes "2 \<le> tp" "tp \<le> 2 ^ 53"
  shows "resampleData fl64 (resampleData fl64 d tp) tp = resampleData fl64 d tp"
proof (rule resampleData_idem)
  show "\<forall>i < tp. fl64 (rat_of_nat i) = rat_of_nat i"
    using assms(2) by (auto intro!: fl64_of_nat)
qed (rule assms(1))

text \<open>
  C9. Let the rounding of the arithmetic leave the loop counters below targetPoints
  unchanged, as exact arithmetic does, and as rounding to a double does up to
  \<open>2^53\<close>. Then for targetPoints of at least 2, resampling the resampled array again at
  the same length returns it unchanged, and so does resampling any array whose length
  is already targetPoints.
\<close>

theorem resampleData_idempotent:
  "2 \<le> tp \<and> (\<forall>i < tp. rnd (of_nat i) = of_nat i) \<longrightarrow>
     resampleData rnd (resampleData rnd d tp) tp = resampleData rnd d tp
     \<and> (length d = tp \<longrightarrow> resampleData rnd d tp = d)"
  using resampleData_idem [of tp rnd d] resampleData_same_length [of d rnd] by blast

theorem resampleData_idempotent_witness:
  "(2::nat) \<le> 4 \<and> fl64 0 = 0 \<and> fl64 1 = 1 \<and> fl64 2 = 2 \<and> fl64 3 = 3
   \<and> resampleData fl64 (resampleData fl64 [Fin 0, Fin (1 / 4), Fin 3] 4) 4
       = resampleData fl64 [Fin 0, Fin (1 / 4), Fin 3] 4
   \<and> length [Fin 1, Fin 2, Fin (17 / 4), NaN] = 4
   \<and> resampleData fl64 [Fin 1, Fin 2, Fin (17 / 4), NaN] 4 = [Fin 1, Fin 2, Fin (17 / 4), NaN]"
proof -
  have h: "\<forall>i < 4. fl64 (rat_of_nat i) = rat_of_nat i"
    by (auto intro!: fl64_of_nat)
  with resampleData_idempotent [of 4 fl64 "[Fin 0, Fin (1 / 4), Fin 3]"]
    resampleData_idempotent [of 4 fl64 "[Fin 1, Fin 2, Fin (17 / 4), NaN]"]
  show ?thesis using fl64_of_nat [of 0] fl64_of_nat [of 1] fl64_of_nat [of 2] fl64_of_nat [of 3]
    by simp
qed

subsection \<open>End points of the resampled array\<close>

lemma resampleData_first:
  assumes "rnd 0 = 0" "2 \<le> length d" "2 \<le> tp"
  shows "resampleData rnd d tp ! 0 = d ! 0"
proof -
  from assms(1) have "rnd (of_nat 0 * rnd (of_nat (length d - 1) / of_nat (tp - 1))) = of_nat 0"
    by simp
  then have "resamplePoint rnd d (rnd (of_nat (length d - 1) / of_nat (tp - 1))) 0 = d ! 0"
    using assms(2) by (intro resamplePoint_integral) auto
  with assms show ?thesis by (simp add: resampleData_nth)
qed

lemma resampleData_endpoints_exact:
  assumes "2 \<le> length d" "2 \<le> tp"
  shows "resampleData id d tp ! 0 = d ! 0"
    and "resampleData id d tp ! (tp - 1) = d ! (length d - 1)"
proof -
  show "resampleData id d tp ! 0 = d ! 0"
    using assms by (intro resampleData_first) simp_all
  from assms(2) have "rat_of_nat (tp - 1) \<noteq> 0" by simp
  then have "id (rat_of_nat (tp - 1) * id (rat_of_nat (length d - 1) / rat_of_nat (tp - 1)))
      = rat_of_nat (length d - 1)"
    by simp
  then have "resamplePoint id d (id (rat_of_nat (length d - 1) / rat_of_nat (tp - 1))) (tp - 1)
      = d ! (length d - 1)"
    using assms(1) by (intro resamplePoint_integral) simp_all
  with assms show "resampleData id d tp ! (tp - 1) = d ! (length d - 1)"
    by (simp add: resampleData_nth)
qed

lemma resamplePoint_interpolated:
  assumes "rnd (of_nat i * step) = index" "\<lfloor>index\<rfloor> = int lo" "\<lceil>index\<rceil> = int hi" "lo \<noteq> hi"
    and "lo < length data" "hi < length data" "data ! lo = Fin a" "data ! hi = Fin b"
    and "rnd (index - of_nat lo) = w" "rnd (1 - w) = w'"
    and "rnd (a * w') = pa" "rnd (b * w) = pb" "rnd (pa + pb) = v"
    and "rnd (v * 10) = v10" "rnd (Math_round v10 / 10) = res"
  shows "resamplePoint rnd data step i = Fin res"
  using assms by (simp add: resamplePoint_def Let_def num_at_def)

lemma step49: "fl64 (1 / 49) = 5882252574524729 / 288230376151711744" by code_simp

lemma quarter_last_point:
  "resamplePoint fl64 [Fin 0, Fin (1 / 4)] (5882252574524729 / 288230376151711744) 49
     = Fin (3602879701896397 / 18014398509481984)"
proof (rule resamplePoint_interpolated [where lo = 0 and hi = 1 and a = 0 and b = "1 / 4"])
  show "fl64 (rat_of_nat 49 * (5882252574524729 / 288230376151711744))
      = 9007199254740991 / 9007199254740992" by code_simp
  show "\<lfloor>9007199254740991 / 9007199254740992 :: rat\<rfloor> = int 0"
    by (rule floor_unique) simp_all
  show "\<lceil>9007199254740991 / 9007199254740992 :: rat\<rceil> = int 1"
    by (rule ceiling_unique) simp_all
  show "fl64 (9007199254740991 / 9007199254740992 - rat_of_nat 0)
      = 9007199254740991 / 9007199254740992" by code_simp
  show "fl64 (1 - 9007199254740991 / 9007199254740992) = 1 / 9007199254740992" by code_simp
  show "fl64 (0 * (1 / 9007199254740992)) = 0" by code_simp
  show "fl64 (1 / 4 * (9007199254740991 / 9007199254740992))
      = 9007199254740991 / 36028797018963968" by code_simp
  show "fl64 (0 + 9007199254740991 / 36028797018963968)
      = 9007199254740991 / 36028797018963968" by code_simp
  show "fl64 (9007199254740991 / 36028797018963968 * 10)
      = 5629499534213119 / 2251799813685248" by code_simp
  show "fl64 (Math_round (5629499534213119 / 2251799813685248) / 10)
      = 3602879701896397 / 18014398509481984" by code_simp
qed simp_all

lemma step100: "fl64 (7 / 100) = 1261007895663739 / 18014398509481984"
  by code_simp

lemma ramp8_last_point:
  "resamplePoint fl64 ramp8 (1261007895663739 / 18014398509481984) 100 = NaN"
  by code_simp

lemma ramp8_first_point:
  "resamplePoint fl64 ramp8 (1261007895663739 / 18014398509481984) 0 = Fin 0"
  by code_simp

lemma double_of_fifth: "fl64 (1 / 5) = 3602879701896397 / 18014398509481984"
  by code_simp

text \<open>
  C10 fails on the code. With the default 101 target points and the eight samples
  0, ..., 7 the step is the double nearest to 0.07, and 100 times that step rounds to
  a double just above 7: the last position takes the interpolating branch and reads
  past the end of the input, so the last output is \<open>NaN\<close> and not 7. With the two
  samples 0 and 0.25 and 50 target points the last position is just below 1, and the
  last output is the interpolated value rounded to one decimal, the double nearest to
  0.2, and not 0.25.
  The first output is the first input in both cases.
\<close>

theorem resampleData_last_sample_lost:
  "length ramp8 = 8 \<and> last ramp8 = Fin 7
   \<and> length (resampleData fl64 ramp8 101) = 101
   \<and> resampleData fl64 ramp8 101 ! 0 = Fin 0
   \<and> resampleData fl64 ramp8 101 ! 100 = NaN
   \<and> 7 < fl64 (100 * fl64 (7 / 100))
   \<and> resampleData fl64 [Fin 0, Fin (1 / 4)] 50 ! 49 = Fin (fl64 (1 / 5))
   \<and> fl64 (49 * fl64 (1 / 49)) < 1"
proof (intro conjI)
  show "length ramp8 = 8" "last ramp8 = Fin 7" by (simp_all add: ramp8_def)
  show "length (resampleData fl64 ramp8 101) = 101"
    by (simp add: length_resampleData ramp8_def)
  have len: "length ramp8 = 8" by (simp add: ramp8_def)
  show "resampleData fl64 ramp8 101 ! 0 = Fin 0"
    using resampleData_nth [of ramp8 101 0 fl64] by (simp add: len step100 ramp8_first_point)
  show "resampleData fl64 ramp8 101 ! 100 = NaN"
    using resampleData_nth [of ramp8 101 100 fl64] by (simp add: len step100 ramp8_last_point)
  show "7 < fl64 (100 * fl64 (7 / 100))" by code_simp
  show "resampleData fl64 [Fin 0, Fin (1 / 4)] 50 ! 49 = Fin (fl64 (1 / 5))"
    using resampleData_nth [of "[Fin 0, Fin (1 / 4)]" 50 49 fl64]
    by (simp add: step49 quarter_last_point double_of_fifth)
  show "fl64 (49 * fl64 (1 / 49)) < 1" by code_simp
qed

section \<open>Properties of the phase detector\<close>

lemma phase_covers:
  assumes "0 \<le> p" "p \<le> 100"
  shows "\<exists>ph \<in> set STANDARD_PHASES. startPercent ph \<le> p \<and> p \<le> endPercent ph"
proof -
  consider "p \<le> 2" | "2 \<le> p \<and> p \<le> 12" | "12 \<le> p \<and> p \<le> 31" | "31 \<le> p \<and> p \<le> 50"
    | "50 \<le> p \<and> p \<le> 62" | "62 \<le> p \<and> p \<le> 75" | "75 \<le> p \<and> p \<le> 87" | "87 \<le> p"
    by linarith
  then show ?thesis
    using assms by cases (simp_all add: STANDARD_PHASES_def)
qed

lemma phase_outside:
  assumes "p < 0 \<or> p > 100"
  shows "\<forall>ph \<in> set STANDARD_PHASES. \<not> (startPercent ph \<le> p \<and> p \<le> endPercent ph)"
  using assms by (auto simp: STANDARD_PHASES_def)

text \<open>
  C8. For a percent \<open>p\<close> between 0 and 100, \<open>getPhaseAtPercent\<close> returns a phase of the
  catalog whose inclusive interval contains \<open>p\<close>, and no earlier phase of the catalog
  contains \<open>p\<close>. Each phase ends where the next one starts, at 2, 12, 31, 50, 62, 75
  and 87, so both intervals contain such a boundary, and the function returns the
  earlier phase there: Loading Response at 12. Below 0 and above 100 it returns nothing.
\<close>

theorem getPhaseAtPercent_first_match:
  "(0 \<le> p \<and> p \<le> 100 \<longrightarrow>
      (\<exists>k < length STANDARD_PHASES.
          getPhaseAtPercent p = Some (STANDARD_PHASES ! k)
          \<and> startPercent (STANDARD_PHASES ! k) \<le> p \<and> p \<le> endPercent (STANDARD_PHASES ! k)
          \<and> (\<forall>j < k. \<not> (startPercent (STANDARD_PHASES ! j) \<le> p
                           \<and> p \<le> endPercent (STANDARD_PHASES ! j)))))
   \<and> (p < 0 \<or> p > 100 \<longrightarrow> getPhaseAtPercent p = None)
   \<and> map endPercent (butlast STANDARD_PHASES) = [2, 12, 31, 50, 62, 75, 87]
   \<and> map startPercent (tl STANDARD_PHASES) = [2, 12, 31, 50, 62, 75, 87]
   \<and> map (\<lambda>b. map_option name (getPhaseAtPercent b)) [2, 12, 31, 50, 62, 75, 87]
       = [Some ''Initial Contact'', Some ''Loading Response'', Some ''Mid Stance'',
          Some ''Terminal Stance'', Some ''Pre-Swing'', Some ''Initial Swing'',
          Some ''Mid Swing'']
   \<and> map_option phase_abbreviation (getPhaseAtPercent 12) = Some ''LR''"
proof (intro conjI impI)
  assume p: "0 \<le> p \<and> p \<le> 100"
  then have "find (\<lambda>phase. p \<ge> startPercent phase \<and> p \<le> endPercent phase) STANDARD_PHASES
      \<noteq> None"
    using phase_covers [of p] by (auto simp: find_None_iff)
  then obtain ph where ph: "getPhaseAtPercent p = Some ph"
    by (auto simp: getPhaseAtPercent_def)
  then obtain k where "k < length STANDARD_PHASES" "ph = STANDARD_PHASES ! k"
    "startPercent (STANDARD_PHASES ! k) \<le> p \<and> p \<le> endPercent (STANDARD_PHASES ! k)"
    "\<forall>j < k. \<not> (startPercent (STANDARD_PHASES ! j) \<le> p \<and> p \<le> endPercent (STANDARD_PHASES ! j))"
    unfolding getPhaseAtPercent_def find_Some_iff by blast
  with ph show "\<exists>k < length STANDARD_PHASES.
          getPhaseAtPercent p = Some (STANDARD_PHASES ! k)
          \<and> startPercent (STANDARD_PHASES ! k) \<le> p \<and> p \<le> endPercent (STANDARD_PHASES ! k)
          \<and> (\<forall>j < k. \<not> (startPercent (STANDARD_PHASES ! j) \<le> p
                           \<and> p \<le> endPercent (STANDARD_PHASES ! j)))"
    by blast
next
  assume "p < 0 \<or> p > 100"
  then show "getPhaseAtPercent p = None"
    using phase_outside [of p] by (auto simp: getPhaseAtPercent_def find_None_iff)
next
  show "map endPercent (butlast STANDARD_PHASES) = [2, 12, 31, 50, 62, 75, 87]"
    by (simp add: STANDARD_PHASES_def)
next
  show "map startPercent (tl STANDARD_PHASES) = [2, 12, 31, 50, 62, 75, 87]"
    by (simp add: STANDARD_PHASES_def)
next
  show "map (\<lambda>b. map_option name (getPhaseAtPercent b)) [2, 12, 31, 50, 62, 75, 87]
       = [Some ''Initial Contact'', Some ''Loading Response'', Some ''Mid Stance'',
          Some ''Terminal Stance'', Some ''Pre-Swing'', Some ''Initial Swing'',
          Some ''Mid Swing'']"
    by (simp add: getPhaseAtPercent_def STANDARD_PHASES_def)
next
  show "map_option phase_abbreviation (getPhaseAtPercent 12) = Some ''LR''"
    by (simp add: getPhaseAtPercent_def STANDARD_PHASES_def)
qed

theorem getPhaseAtPercent_first_match_witness:
  "(0::rat) \<le> 249 / 4 \<and> (249 / 4 :: rat) \<le> 100
   \<and> map_option name (getPhaseAtPercent (249 / 4)) = Some ''Initial Swing''
   \<and> (- 1 :: rat) < 0 \<and> getPhaseAtPercent (- 1) = None
   \<and> (201 / 2 :: rat) > 100 \<and> getPhaseAtPercent (201 / 2) = None"
  using getPhaseAtPercent_first_match [of "249 / 4"] getPhaseAtPercent_first_match [of "- 1"]
    getPhaseAtPercent_first_match [of "201 / 2"]
  by (simp add: getPhaseAtPercent_def STANDARD_PHASES_def)

end
